theory Spec2Isabelle
  imports Complex_Main "HOL-Library.Word"
begin

section \<open>Machine integers and the status collective\<close>

text \<open>
  Status codes are C \<open>int\<close>s: 32-bit two's complement words, compared as signed values.
  Unary minus on a word wraps, as the hardware does for \<open>-INT_MIN\<close>.
\<close>

type_synonym cint = "32 word"

definition smin :: "cint \<Rightarrow> cint \<Rightarrow> cint" where
  "smin a b = (if a <s b then a else b)"

text \<open>
  \<open>MPI_Allreduce(sendbuf, recvbuf, count, MPI_INT, MPI_MIN, comm)\<close>: every rank receives,
  at each of the \<open>count\<close> positions, the signed minimum of the values all ranks sent there.
  The argument lists the send buffers in rank order.
\<close>

definition MPI_Allreduce_MIN :: "cint list list \<Rightarrow> nat \<Rightarrow> cint list" where
  "MPI_Allreduce_MIN bufs count =
     map (\<lambda>k. fold smin (map (\<lambda>b. b ! k) (tl bufs)) (hd bufs ! k)) [0..<count]"

section \<open>Solve_BDMPIMV (imex_chem_hydro_main.cpp)\<close>

text \<open>
  \<open>SUNLS_MEM_FAIL\<close> is a constant of the SUNDIALS linear solver interface.
\<close>

definition SUNLS_MEM_FAIL :: cint where
  "SUNLS_MEM_FAIL = - 803"

text \<open>
  What one rank's call meets in its surroundings. The profiler, \<open>check_flag\<close> and the vector
  library are outside the function: each field says whether \<open>check_flag\<close> reported the
  corresponding call as failed, or whether a subvector pointer came back \<open>NULL\<close>.
  \<open>blockLS_ierr\<close> is the value \<open>SUNLinSolSolve\<close> returns for the rank-local block.
\<close>

record solve_env =
  lsolve_start_failed :: bool
  xsub_null :: bool
  bsub_null :: bool
  blockLS_ierr :: cint
  lsolvempi_start_failed :: bool
  allreduce_failed :: bool
  lsolvempi_stop_failed :: bool
  lsolve_stop_failed :: bool

text \<open>
  The result of a call: the value returned and the \<open>lastflag\<close> field of the solver content
  afterwards.
\<close>

record solve_result =
  returned :: cint
  lastflag :: cint

text \<open>
  The part of \<open>Solve_BDMPIMV\<close> before the collective. \<open>Inl\<close> is an early return,
  \<open>Inr\<close> is the send buffer \<open>ierrs\<close> with which the rank enters \<open>MPI_Allreduce\<close>.
\<close>

definition Solve_BDMPIMV_enter :: "solve_env \<Rightarrow> cint \<Rightarrow> solve_result + cint list" where
  "Solve_BDMPIMV_enter env lf =
     (if lsolve_start_failed env then Inl \<lparr>returned = - 1, lastflag = lf\<rparr>
      else if xsub_null env \<or> bsub_null env
        then Inl \<lparr>returned = SUNLS_MEM_FAIL, lastflag = SUNLS_MEM_FAIL\<rparr>
      else let ierr = blockLS_ierr env in
        if lsolvempi_start_failed env then Inl \<lparr>returned = - 1, lastflag = lf\<rparr>
        else Inr [ierr, - ierr])"

text \<open>The part after the collective, given the receive buffer \<open>globerrs\<close>.\<close>

definition Solve_BDMPIMV_leave :: "solve_env \<Rightarrow> cint \<Rightarrow> cint list \<Rightarrow> solve_result" where
  "Solve_BDMPIMV_leave env lf globerrs =
     (if allreduce_failed env then \<lparr>returned = - 1, lastflag = lf\<rparr>
      else if lsolvempi_stop_failed env then \<lparr>returned = - 1, lastflag = lf\<rparr>
      else if globerrs ! 0 <s 0 then
        (if lsolve_stop_failed env then \<lparr>returned = - 1, lastflag = globerrs ! 0\<rparr>
         else \<lparr>returned = globerrs ! 0, lastflag = globerrs ! 0\<rparr>)
      else
        (if lsolve_stop_failed env then \<lparr>returned = - 1, lastflag = - (globerrs ! 1)\<rparr>
         else \<lparr>returned = - (globerrs ! 1), lastflag = - (globerrs ! 1)\<rparr>))"

text \<open>
  One collective solve: every rank of the communicator calls \<open>Solve_BDMPIMV\<close>. The
  argument gives each rank's surroundings and its \<open>lastflag\<close> before the call, in rank
  order. A rank that returns early has its result; when some rank never enters the
  collective, the ranks that did enter wait in it for ever and have no result (\<open>None\<close>).
\<close>

definition is_Inr :: "'a + 'b \<Rightarrow> bool" where
  "is_Inr s = (case s of Inl _ \<Rightarrow> False | Inr _ \<Rightarrow> True)"

definition Solve_BDMPIMV :: "(solve_env \<times> cint) list \<Rightarrow> solve_result option list" where
  "Solve_BDMPIMV ranks =
     (let entered = map (\<lambda>(env, lf). Solve_BDMPIMV_enter env lf) ranks in
      if list_all is_Inr entered then
        (let globerrs = MPI_Allreduce_MIN (map projr entered) 2 in
         map (\<lambda>(env, lf). Some (Solve_BDMPIMV_leave env lf globerrs)) ranks)
      else
        map (\<lambda>e. case e of Inl r \<Rightarrow> Some r | Inr _ \<Rightarrow> None) entered)"

text \<open>The surroundings in which no profiler or MPI call fails and both subvectors exist.\<close>

definition calls_succeed :: "solve_env \<Rightarrow> bool" where
  "calls_succeed env \<longleftrightarrow>
     \<not> lsolve_start_failed env \<and> \<not> xsub_null env \<and> \<not> bsub_null env \<and>
     \<not> lsolvempi_start_failed env \<and> \<not> allreduce_failed env \<and>
     \<not> lsolvempi_stop_failed env \<and> \<not> lsolve_stop_failed env"

section \<open>The chemistry network data (raja_primordial_network)\<close>

text \<open>
  Floating-point \<open>double\<close> values are modelled as real numbers: rounding, infinities and
  NaN are outside the model. \<open>log\<close> is the natural logarithm \<open>ln\<close>, \<open>pow\<close> with a
  literal integer exponent is a power, \<open>pow\<close> with a fractional exponent is \<open>powr\<close>,
  \<open>fmin\<close> and \<open>fmax\<close> are \<open>min\<close> and \<open>max\<close>.
\<close>

text \<open>
  \<open>NSPECIES\<close> comes from a header that is not among the sources; the network has the
  ten unknowns \<open>H2_1\<close>, \<open>H2_2\<close>, \<open>H_1\<close>, \<open>H_2\<close>, \<open>H_m0\<close>, \<open>He_1\<close>, \<open>He_2\<close>,
  \<open>He_3\<close>, \<open>de\<close>, \<open>ge\<close> per cell, which the routines index from 0 to 9.
\<close>

definition NSPECIES :: nat where
  "NSPECIES = 10"

text \<open>
  The 46 tabulated reaction and cooling rates. Each constructor names one of the arrays
  \<open>data->r_k01\<close>, ..., \<open>data->c_reHII_reHII\<close> of 1024 entries (the source's
  \<open>c_compton_comp_\<close> is written without its trailing underscore). The source repeats the
  same three statements for every table; the model indexes them by this type.
\<close>

datatype (plugins only:) table =
    r_k01 | r_k02 | r_k03 | r_k04 | r_k05
  | r_k06 | r_k07 | r_k08 | r_k09 | r_k10
  | r_k11 | r_k12 | r_k13 | r_k14 | r_k15
  | r_k16 | r_k17 | r_k18 | r_k19 | r_k21
  | r_k22 | c_brem_brem | c_ceHeI_ceHeI | c_ceHeII_ceHeII | c_ceHI_ceHI
  | c_cie_cooling_cieco | c_ciHeI_ciHeI | c_ciHeII_ciHeII | c_ciHeIS_ciHeIS | c_ciHI_ciHI
  | c_compton_comp | c_gloverabel08_gael | c_gloverabel08_gaH2 | c_gloverabel08_gaHe | c_gloverabel08_gaHI
  | c_gloverabel08_gaHp | c_gloverabel08_h2lte | c_h2formation_h2mcool | c_h2formation_h2mheat | c_h2formation_ncrd1
  | c_h2formation_ncrd2 | c_h2formation_ncrn | c_reHeII1_reHeII1 | c_reHeII2_reHeII2 | c_reHeIII_reHeIII
  | c_reHII_reHII

text \<open>
  \<open>cvklu_data\<close>. Arrays with one entry per cell and the scaling arrays are lists; the
  rate tables are functions of the index. \<open>rs\<close> and \<open>drs\<close> hold the per-cell
  interpolated values \<open>rs_k01\<close>, \<open>cs_brem_brem\<close>, ... and their slopes
  \<open>drs_k01\<close>, \<open>dcs_brem_brem\<close>, ...
\<close>

record cvklu_data =
  nstrip :: int
  Ts :: "real list"
  dTs_ge :: "real list"
  mdensity :: "real list"
  inv_mdensity :: "real list"
  cie_optical_depth_approx :: "real list"
  h2_optical_depth_approx :: "real list"
  scale :: "real list"
  inv_scale :: "real list"
  current_z :: real
  bounds :: "real list"
  nbins :: int
  dbin :: real
  idbin :: real
  tab :: "table \<Rightarrow> nat \<Rightarrow> real"
  rs :: "table \<Rightarrow> real list"
  drs :: "table \<Rightarrow> real list"
  g_gammaH2_1 :: "nat \<Rightarrow> real"
  g_dgammaH2_1_dT :: "nat \<Rightarrow> real"
  g_gammaH2_2 :: "nat \<Rightarrow> real"
  g_dgammaH2_2_dT :: "nat \<Rightarrow> real"

text \<open>
  \<open>cvklu_setup_data\<close>: the fields it assigns. The first argument stands for the freshly
  allocated structure, whose other arrays hold whatever the allocator returned; the tables
  are what \<open>cvklu_read_rate_tables\<close>, \<open>cvklu_read_cooling_tables\<close> and
  \<open>cvklu_read_gamma\<close> load from the file.
\<close>

definition cvklu_setup_data ::
  "cvklu_data \<Rightarrow> int \<Rightarrow> real \<Rightarrow> (table \<Rightarrow> nat \<Rightarrow> real) \<Rightarrow>
   (nat \<Rightarrow> real) \<times> (nat \<Rightarrow> real) \<times> (nat \<Rightarrow> real) \<times> (nat \<Rightarrow> real) \<Rightarrow> cvklu_data" where
  "cvklu_setup_data fresh ncells z rate_tables gamma_tables =
     (let bounds0 = 1.0; bounds1 = 100000.0; nb = 1024 - 1;
          db = (ln bounds1 - ln bounds0) / real_of_int nb
      in case gamma_tables of (g1, dg1, g2, dg2) \<Rightarrow>
         fresh\<lparr>nstrip := ncells,
               current_z := z,
               Ts := replicate (nat ncells) 1000.0,
               bounds := [bounds0, bounds1],
               nbins := nb,
               dbin := db,
               idbin := 1.0 / db,
               tab := rate_tables,
               g_gammaH2_1 := g1, g_dgammaH2_1_dT := dg1,
               g_gammaH2_2 := g2, g_dgammaH2_2_dT := dg2\<rparr>)"

subsection \<open>Table lookup\<close>

text \<open>The C conversion \<open>(int) x\<close> of a \<open>double\<close>: truncation towards zero.\<close>

definition int_cast :: "real \<Rightarrow> int" where
  "int_cast x = (if 0 \<le> x then \<lfloor>x\<rfloor> else \<lceil>x\<rceil>)"

text \<open>
  The statements that every lookup in the source starts with: the bin of a temperature,
  the bin edges \<open>t1\<close>, \<open>t2\<close> and the position \<open>Tdef\<close> inside the bin.
\<close>

definition bin_id_of :: "cvklu_data \<Rightarrow> real \<Rightarrow> int" where
  "bin_id_of data T =
     (let lb = ln (bounds data ! 0);
          bin_id = int_cast (idbin data * (ln T - lb))
      in if bin_id \<le> 0 then 0
         else if bin_id \<ge> nbins data then nbins data - 1
         else bin_id)"

definition t1_of :: "cvklu_data \<Rightarrow> int \<Rightarrow> real" where
  "t1_of data bin_id = ln (bounds data ! 0) + real_of_int bin_id * dbin data"

definition t2_of :: "cvklu_data \<Rightarrow> int \<Rightarrow> real" where
  "t2_of data bin_id = ln (bounds data ! 0) + real_of_int (bin_id + 1) * dbin data"

definition Tdef_of :: "cvklu_data \<Rightarrow> real \<Rightarrow> real" where
  "Tdef_of data T =
     (let bin_id = bin_id_of data T
      in (ln T - t1_of data bin_id) / (t2_of data bin_id - t1_of data bin_id))"

text \<open>\<open>tbl[bin_id] + Tdef * (tbl[bin_id+1] - tbl[bin_id])\<close>\<close>

definition interpolate :: "(nat \<Rightarrow> real) \<Rightarrow> int \<Rightarrow> real \<Rightarrow> real" where
  "interpolate tbl bin_id Tdef =
     tbl (nat bin_id) + Tdef * (tbl (nat (bin_id + 1)) - tbl (nat bin_id))"

text \<open>\<open>(tbl[bin_id+1] - tbl[bin_id]) * Tfactor\<close>\<close>

definition slope :: "(nat \<Rightarrow> real) \<Rightarrow> int \<Rightarrow> real \<Rightarrow> real" where
  "slope tbl bin_id Tfactor = (tbl (nat (bin_id + 1)) - tbl (nat bin_id)) * Tfactor"

subsection \<open>cvklu_calculate_temperature\<close>

text \<open>The local variables that live across the iterations of the Newton loop.\<close>

record newton_state =
  T_var :: real
  Tnew :: real
  Tdiff :: real
  dge_dT :: real
  Ts_ref :: real

definition mixture_density :: "real list \<Rightarrow> real" where
  "mixture_density y_arr =
     (let H2_1 = y_arr ! 0; H2_2 = y_arr ! 1; H_1 = y_arr ! 2; H_2 = y_arr ! 3;
          H_m0 = y_arr ! 4; He_1 = y_arr ! 5; He_2 = y_arr ! 6; He_3 = y_arr ! 7
      in 2.0 * H2_1 + 2.0 * H2_2 + 1.0079400000000001 * H_1
         + 1.0079400000000001 * H_2 + 1.0079400000000001 * H_m0 + 4.0026020000000004 * He_1
         + 4.0026020000000004 * He_2 + 4.0026020000000004 * He_3)"

text \<open>One pass through the body of \<open>for (int j=0; j<10; j++)\<close>.\<close>

definition newton_body :: "cvklu_data \<Rightarrow> real list \<Rightarrow> newton_state \<Rightarrow> newton_state" where
  "newton_body data y_arr st =
     (let kb = 1.3806504 / 10 ^ 16;
          mh = 1.67 / 10 ^ 24;
          gamma = 5 / 3;
          gamma_m1 = 1.0 / (gamma - 1);
          H2_1 = y_arr ! 0; H2_2 = y_arr ! 1; H_1 = y_arr ! 2; H_2 = y_arr ! 3;
          H_m0 = y_arr ! 4; He_1 = y_arr ! 5; He_2 = y_arr ! 6; He_3 = y_arr ! 7;
          de = y_arr ! 8; ge = y_arr ! 9;
          density = mixture_density y_arr;
          T = Ts_ref st;
          bin_id = bin_id_of data (Ts_ref st);
          Tdef = Tdef_of data (Ts_ref st);
          gammaH2_2 = interpolate (g_gammaH2_2 data) bin_id Tdef;
          dgammaH2_2_dT = interpolate (g_dgammaH2_2_dT data) bin_id Tdef;
          gammaH2_1 = interpolate (g_gammaH2_1 data) bin_id Tdef;
          dgammaH2_1_dT = interpolate (g_dgammaH2_1_dT data) bin_id Tdef;
          gammaH2_1_m1 = 1.0 / (gammaH2_1 - 1.0);
          gammaH2_2_m1 = 1.0 / (gammaH2_2 - 1.0);
          dge_dT' = T * kb * (- H2_1 * gammaH2_1_m1 * gammaH2_1_m1 * dgammaH2_1_dT - H2_2 * gammaH2_2_m1 * gammaH2_2_m1 * dgammaH2_2_dT) / (density * mh) + kb * (H2_1 * gammaH2_1_m1 + H2_2 * gammaH2_2_m1 + H_1 * gamma_m1 + H_2 * gamma_m1 + H_m0 * gamma_m1 + He_1 * gamma_m1 + He_2 * gamma_m1 + He_3 * gamma_m1 + gamma_m1 * de) / (density * mh);
          dge = T * kb * (H2_1 * gammaH2_1_m1 + H2_2 * gammaH2_2_m1 + H_1 * gamma_m1 + H_2 * gamma_m1 + H_m0 * gamma_m1 + He_1 * gamma_m1 + He_2 * gamma_m1 + He_3 * gamma_m1 + gamma_m1 * de) / (density * mh) - ge;
          Tnew' = T - dge / dge_dT'
      in \<lparr>T_var = T, Tnew = Tnew', Tdiff = \<bar>T - Tnew'\<bar>, dge_dT = dge_dT', Ts_ref = Tnew'\<rparr>)"

text \<open>The loop \<open>for (int j=0; j<10; j++)\<close>, entered with counter \<open>j\<close>.\<close>

function newton_loop :: "cvklu_data \<Rightarrow> real list \<Rightarrow> int \<Rightarrow> newton_state \<Rightarrow> newton_state" where
  "newton_loop data y_arr j st =
     (if j < 10 then newton_loop data y_arr (j + 1) (newton_body data y_arr st) else st)"
  by pat_completeness auto
termination
  by (relation "measure (\<lambda>(data, y_arr, j, st). nat (10 - j))") auto

text \<open>
  \<open>cvklu_calculate_temperature(data, y_arr, i, Ts, dTs_ge)\<close>. \<open>Ts\<close> is passed by reference
  and holds the starting guess; the result is the return value and the final \<open>Ts\<close> and
  \<open>dTs_ge\<close>. The local \<open>dge_dT\<close> is declared without a value and the loop assigns
  it before anything reads it; the model starts it at 0.
\<close>

definition cvklu_calculate_temperature ::
  "cvklu_data \<Rightarrow> real list \<Rightarrow> nat \<Rightarrow> real \<Rightarrow> int \<times> real \<times> real" where
  "cvklu_calculate_temperature data y_arr i Ts_in =
     (let T = Ts_in;
          Tnew0 = T * 1.1;
          st0 = \<lparr>T_var = T, Tnew = Tnew0, Tdiff = Tnew0 - T, dge_dT = 0, Ts_ref = Ts_in\<rparr>;
          st = newton_loop data y_arr 0 st0;
          Ts1 = Tnew st;
          Ts2 = (if Ts1 < bounds data ! 0 then bounds data ! 0
                 else if Ts1 > bounds data ! 1 then bounds data ! 1
                 else Ts1)
      in (0, Ts2, 1.0 / dge_dT st))"

subsection \<open>setting_up_extra_variables\<close>

text \<open>The body of the loop over cells, for cell \<open>i\<close>; \<open>input\<close> is \<open>data->scale\<close>.\<close>

definition extra_variables_cell :: "nat \<Rightarrow> cvklu_data \<Rightarrow> cvklu_data" where
  "extra_variables_cell i data =
     (let input = scale data;
          mdensity0 = 0.0
            + input ! (i * NSPECIES) * 2.0
            + input ! (i * NSPECIES + 1) * 2.0
            + input ! (i * NSPECIES + 2) * 1.00794
            + input ! (i * NSPECIES + 3) * 1.00794
            + input ! (i * NSPECIES + 4) * 1.00794
            + input ! (i * NSPECIES + 5) * 4.002602
            + input ! (i * NSPECIES + 6) * 4.002602
            + input ! (i * NSPECIES + 7) * 4.002602;
          mdensity' = mdensity0 * (1.67 / 10 ^ 24);
          tau0 = (mdensity' / (3.3 / 10 ^ 8)) powr 2.8;
          tau = max tau0 (1.0 / 10 ^ 5)
      in data\<lparr>mdensity := (mdensity data)[i := mdensity'],
               inv_mdensity := (inv_mdensity data)[i := 1.0 / mdensity'],
               cie_optical_depth_approx :=
                 (cie_optical_depth_approx data)[i := min 1.0 ((1.0 - exp (- tau)) / tau)],
               h2_optical_depth_approx :=
                 (h2_optical_depth_approx data)
                   [i := min 1.0 ((mdensity' / (1.34 / 10 ^ 14)) powr (- 0.45))]\<rparr>)"

definition setting_up_extra_variables :: "cvklu_data \<Rightarrow> int \<Rightarrow> cvklu_data" where
  "setting_up_extra_variables data n = fold extra_variables_cell [0..<nat n] data"

subsection \<open>calculate_rhs_cvklu\<close>

text \<open>
  The body of the loop over cells is modelled in the four stages in which the source
  writes it. First the local array \<open>y_arr\<close> of cell \<open>i\<close>: the entries of the input
  vector times their scale factors.
\<close>

definition scaled_species :: "real list \<Rightarrow> cvklu_data \<Rightarrow> nat \<Rightarrow> real list" where
  "scaled_species ydata data i =
     (let j = i * NSPECIES
      in [ydata ! (j + 0) * scale data ! (j + 0),
         ydata ! (j + 1) * scale data ! (j + 1),
         ydata ! (j + 2) * scale data ! (j + 2),
         ydata ! (j + 3) * scale data ! (j + 3),
         ydata ! (j + 4) * scale data ! (j + 4),
         ydata ! (j + 5) * scale data ! (j + 5),
         ydata ! (j + 6) * scale data ! (j + 6),
         ydata ! (j + 7) * scale data ! (j + 7),
         ydata ! (j + 8) * scale data ! (j + 8),
         ydata ! (j + 9) * scale data ! (j + 9)])"

text \<open>
  \<open>cvklu_calculate_temperature(data, y_arr, i, data->Ts[i], data->dTs_ge[i])\<close>: the two
  entries are passed by reference and hold the results afterwards.
\<close>

definition update_temperature :: "cvklu_data \<Rightarrow> real list \<Rightarrow> nat \<Rightarrow> cvklu_data" where
  "update_temperature data y_arr i =
     (let tres = cvklu_calculate_temperature data y_arr i (Ts data ! i)
      in data\<lparr>Ts := (Ts data)[i := fst (snd tres)],
               dTs_ge := (dTs_ge data)[i := snd (snd tres)]\<rparr>)"

text \<open>
  The rate lookup (the statements that replace the call \<open>cvklu_interpolate_rates(data, i)\<close>,
  which the source keeps as a comment): every table is interpolated at \<open>data->Ts[i]\<close>.
\<close>

definition cvklu_interpolate_rates :: "cvklu_data \<Rightarrow> nat \<Rightarrow> cvklu_data" where
  "cvklu_interpolate_rates data i =
     (let bin_id = bin_id_of data (Ts data ! i);
          t1 = t1_of data bin_id;
          t2 = t2_of data bin_id;
          Tdef = (ln (Ts data ! i) - t1) / (t2 - t1);
          dT = t2 - t1;
          invTs = 1.0 / (Ts data ! i);
          Tfactor = invTs / dT
      in data\<lparr>rs := (\<lambda>r. (rs data r)[i := interpolate (tab data r) bin_id Tdef]),
               drs := (\<lambda>r. (drs data r)[i := slope (tab data r) bin_id Tfactor])\<rparr>)"

text \<open>
  The ten right-hand sides of cell \<open>i\<close> before they are multiplied by \<open>inv_scale\<close>,
  in the order of the species. Locals that share their name with a field of the
  structure carry a prime.
\<close>

definition species_rates :: "cvklu_data \<Rightarrow> nat \<Rightarrow> real list \<Rightarrow> real list" where
  "species_rates data i y_arr =
     (let H2_1 = y_arr ! 0;
          H2_2 = y_arr ! 1;
          H_1 = y_arr ! 2;
          H_2 = y_arr ! 3;
          H_m0 = y_arr ! 4;
          He_1 = y_arr ! 5;
          He_2 = y_arr ! 6;
          He_3 = y_arr ! 7;
          de = y_arr ! 8;
          ge = y_arr ! 9;
          T = Ts data ! i;
          z = current_z data;
          mdensity' = mdensity data ! i;
          k01 = rs data r_k01 ! i;
          k02 = rs data r_k02 ! i;
          k03 = rs data r_k03 ! i;
          k04 = rs data r_k04 ! i;
          k05 = rs data r_k05 ! i;
          k06 = rs data r_k06 ! i;
          k07 = rs data r_k07 ! i;
          k08 = rs data r_k08 ! i;
          k09 = rs data r_k09 ! i;
          k10 = rs data r_k10 ! i;
          k11 = rs data r_k11 ! i;
          k12 = rs data r_k12 ! i;
          k13 = rs data r_k13 ! i;
          k14 = rs data r_k14 ! i;
          k15 = rs data r_k15 ! i;
          k16 = rs data r_k16 ! i;
          k17 = rs data r_k17 ! i;
          k18 = rs data r_k18 ! i;
          k19 = rs data r_k19 ! i;
          k21 = rs data r_k21 ! i;
          k22 = rs data r_k22 ! i;
          brem_brem = rs data c_brem_brem ! i;
          ceHeI_ceHeI = rs data c_ceHeI_ceHeI ! i;
          ceHeII_ceHeII = rs data c_ceHeII_ceHeII ! i;
          ceHI_ceHI = rs data c_ceHI_ceHI ! i;
          cie_cooling_cieco = rs data c_cie_cooling_cieco ! i;
          ciHeI_ciHeI = rs data c_ciHeI_ciHeI ! i;
          ciHeII_ciHeII = rs data c_ciHeII_ciHeII ! i;
          ciHeIS_ciHeIS = rs data c_ciHeIS_ciHeIS ! i;
          ciHI_ciHI = rs data c_ciHI_ciHI ! i;
          compton_comp = rs data c_compton_comp ! i;
          gloverabel08_gael = rs data c_gloverabel08_gael ! i;
          gloverabel08_gaH2 = rs data c_gloverabel08_gaH2 ! i;
          gloverabel08_gaHe = rs data c_gloverabel08_gaHe ! i;
          gloverabel08_gaHI = rs data c_gloverabel08_gaHI ! i;
          gloverabel08_gaHp = rs data c_gloverabel08_gaHp ! i;
          gloverabel08_h2lte = rs data c_gloverabel08_h2lte ! i;
          h2formation_h2mcool = rs data c_h2formation_h2mcool ! i;
          h2formation_h2mheat = rs data c_h2formation_h2mheat ! i;
          h2formation_ncrd1 = rs data c_h2formation_ncrd1 ! i;
          h2formation_ncrd2 = rs data c_h2formation_ncrd2 ! i;
          h2formation_ncrn = rs data c_h2formation_ncrn ! i;
          reHeII1_reHeII1 = rs data c_reHeII1_reHeII1 ! i;
          reHeII2_reHeII2 = rs data c_reHeII2_reHeII2 ! i;
          reHeIII_reHeIII = rs data c_reHeIII_reHeIII ! i;
          reHII_reHII = rs data c_reHII_reHII ! i;
          h2_optical_depth_approx' = h2_optical_depth_approx data ! i;
          cie_optical_depth_approx' = cie_optical_depth_approx data ! i;
          rate_H2_1 =
            k08 * H_1 * H_m0 + k10 * H2_2 * H_1 - k11 * H2_1 * H_2 - k12 * H2_1 * de - k13 * H2_1 *
            H_1 + k19 * H2_2 * H_m0 + k21 * H2_1 * H_1 * H_1 + k22 * H_1 * H_1 * H_1;
          rate_H2_2 =
            k09 * H_1 * H_2 - k10 * H2_2 * H_1 + k11 * H2_1 * H_2 + k17 * H_2 * H_m0 - k18 * H2_2 *
            de - k19 * H2_2 * H_m0;
          rate_H_1 =
            - k01 * H_1 * de + k02 * H_2 * de - k07 * H_1 * de - k08 * H_1 * H_m0 - k09 * H_1 * H_2
            - k10 * H2_2 * H_1 + k11 * H2_1 * H_2 + 2 * k12 * H2_1 * de + 2 * k13 * H2_1 * H_1 + k14
            * H_m0 * de + k15 * H_1 * H_m0 + 2 * k16 * H_2 * H_m0 + 2 * k18 * H2_2 * de + k19 * H2_2
            * H_m0 - 2 * k21 * H2_1 * H_1 * H_1 - 2 * k22 * H_1 * H_1 * H_1;
          rate_H_2 =
            k01 * H_1 * de - k02 * H_2 * de - k09 * H_1 * H_2 + k10 * H2_2 * H_1 - k11 * H2_1 * H_2
            - k16 * H_2 * H_m0 - k17 * H_2 * H_m0;
          rate_H_m0 =
            k07 * H_1 * de - k08 * H_1 * H_m0 - k14 * H_m0 * de - k15 * H_1 * H_m0 - k16 * H_2 *
            H_m0 - k17 * H_2 * H_m0 - k19 * H2_2 * H_m0;
          rate_He_1 =
            - k03 * He_1 * de + k04 * He_2 * de;
          rate_He_2 =
            k03 * He_1 * de - k04 * He_2 * de - k05 * He_2 * de + k06 * He_3 * de;
          rate_He_3 =
            k05 * He_2 * de - k06 * He_3 * de;
          rate_de =
            k01 * H_1 * de - k02 * H_2 * de + k03 * He_1 * de - k04 * He_2 * de + k05 * He_2 * de -
            k06 * He_3 * de - k07 * H_1 * de + k08 * H_1 * H_m0 + k14 * H_m0 * de + k15 * H_1 * H_m0
            + k17 * H_2 * H_m0 - k18 * H2_2 * de;
          rate_ge =
            - 2.0158800000000001 * H2_1 * cie_cooling_cieco * cie_optical_depth_approx' * mdensity'
            - H2_1 * cie_optical_depth_approx' * gloverabel08_h2lte * h2_optical_depth_approx' /
            (gloverabel08_h2lte / (H2_1 * gloverabel08_gaH2 + H_1 * gloverabel08_gaHI + H_2 *
            gloverabel08_gaHp + He_1 * gloverabel08_gaHe + de * gloverabel08_gael) + 1.0) - H_1 *
            ceHI_ceHI * cie_optical_depth_approx' * de - H_1 * ciHI_ciHI * cie_optical_depth_approx'
            * de - H_2 * cie_optical_depth_approx' * de * reHII_reHII - He_1 * ciHeI_ciHeI *
            cie_optical_depth_approx' * de - He_2 * ceHeII_ceHeII * cie_optical_depth_approx' * de -
            He_2 * ceHeI_ceHeI * cie_optical_depth_approx' * (de) ^ 2 - He_2 * ciHeII_ciHeII *
            cie_optical_depth_approx' * de - He_2 * ciHeIS_ciHeIS * cie_optical_depth_approx' * (de)
            ^ 2 - He_2 * cie_optical_depth_approx' * de * reHeII1_reHeII1 - He_2 *
            cie_optical_depth_approx' * de * reHeII2_reHeII2 - He_3 * cie_optical_depth_approx' * de
            * reHeIII_reHeIII - brem_brem * cie_optical_depth_approx' * de * (H_2 + He_2 + 4.0 *
            He_3) - cie_optical_depth_approx' * compton_comp * de * (z + 1.0) ^ 4 * (T - 2.73 * z -
            2.73) + 0.5 * 1.0 / (h2formation_ncrn / (H2_1 * h2formation_ncrd2 + H_1 *
            h2formation_ncrd1) + 1.0) * (- H2_1 * H_1 * h2formation_h2mcool + (H_1) ^ 3 *
            h2formation_h2mheat)
      in [rate_H2_1, rate_H2_2, rate_H_1, rate_H_2, rate_H_m0, rate_He_1, rate_He_2, rate_He_3, rate_de, rate_ge])"

text \<open>
  The whole body for cell \<open>i\<close>: the state is the output array \<open>ydotdata\<close> and the data
  structure, both of which the body writes.
\<close>

definition rhs_cell :: "real list \<Rightarrow> nat \<Rightarrow> real list \<times> cvklu_data \<Rightarrow> real list \<times> cvklu_data" where
  "rhs_cell ydata i = (\<lambda>(ydotdata, data0).
     (let j = i * NSPECIES;
          y_arr = scaled_species ydata data0 i;
          data1 = update_temperature data0 y_arr i;
          data = cvklu_interpolate_rates data1 i;
          rates = species_rates data i y_arr
      in (ydotdata[j + 0 := rates ! 0 * inv_scale data ! (j + 0),
                    j + 1 := rates ! 1 * inv_scale data ! (j + 1),
                    j + 2 := rates ! 2 * inv_scale data ! (j + 2),
                    j + 3 := rates ! 3 * inv_scale data ! (j + 3),
                    j + 4 := rates ! 4 * inv_scale data ! (j + 4),
                    j + 5 := rates ! 5 * inv_scale data ! (j + 5),
                    j + 6 := rates ! 6 * inv_scale data ! (j + 6),
                    j + 7 := rates ! 7 * inv_scale data ! (j + 7),
                    j + 8 := rates ! 8 * inv_scale data ! (j + 8),
                    j + 9 := rates ! 9 * inv_scale data ! (j + 9) * inv_mdensity data ! i],
          data)))"

text \<open>
  \<open>calculate_rhs_cvklu(t, y, ydot, nstrip, user_data)\<close> in the host build (the block
  under \<open>USE_DEVICE\<close> that asks the device for its last error is not compiled there):
  the cells are visited in order and the function returns 0. The result is the return
  value, the output vector and the data structure after the call.
\<close>

definition calculate_rhs_cvklu ::
  "real \<Rightarrow> real list \<Rightarrow> real list \<Rightarrow> int \<Rightarrow> cvklu_data \<Rightarrow> int \<times> real list \<times> cvklu_data" where
  "calculate_rhs_cvklu t y ydot n data =
     (case fold (rhs_cell y) [0..<nat n] (ydot, data) of
        (ydot', data') \<Rightarrow> (0, ydot', data'))"

section \<open>Vectors\<close>

text \<open>
  A serial \<open>N_Vector\<close> is the list of its entries; an MPIManyVector is the list of its
  subvectors as one rank sees them. The operations below are those of the SUNDIALS vector
  library that the driver calls, on vectors of equal length.
\<close>

type_synonym nvector = "real list"
type_synonym manyvector = "real list list"

definition N_VConst :: "real \<Rightarrow> nvector \<Rightarrow> nvector" where
  "N_VConst c z = map (\<lambda>_. c) z"

definition N_VConst_ManyVector :: "real \<Rightarrow> manyvector \<Rightarrow> manyvector" where
  "N_VConst_ManyVector c z = map (N_VConst c) z"

definition N_VScale :: "real \<Rightarrow> nvector \<Rightarrow> nvector" where
  "N_VScale c x = map (\<lambda>xi. c * xi) x"

definition N_VLinearSum :: "real \<Rightarrow> nvector \<Rightarrow> real \<Rightarrow> nvector \<Rightarrow> nvector" where
  "N_VLinearSum a x b y = map (\<lambda>(xi, yi). a * xi + b * yi) (zip x y)"

definition N_VWrmsNorm :: "nvector \<Rightarrow> nvector \<Rightarrow> real" where
  "N_VWrmsNorm x w = sqrt ((\<Sum>(xi, wi) \<leftarrow> zip x w. (xi * wi) ^ 2) / real (length x))"

text \<open>The subvector with the given index, \<open>NULL\<close> (\<open>None\<close>) when there is none.\<close>

definition N_VGetSubvector_MPIManyVector :: "manyvector \<Rightarrow> nat \<Rightarrow> nvector option" where
  "N_VGetSubvector_MPIManyVector v k = (if k < length v then Some (v ! k) else None)"

section \<open>The implicit right-hand side and the matrix-free product (imex_chem_hydro_main.cpp)\<close>

text \<open>
  The fields of \<open>EulerData\<close> that the driver routines modelled here use.
  \<open>fchemcur\<close> is a vector or \<open>NULL\<close>; \<open>RxNetData\<close> is the chemistry network
  structure.
\<close>

record EulerData =
  myid :: int
  t0 :: real
  tf :: real
  nout :: int
  nchem :: int
  nxl :: int
  nyl :: int
  nzl :: int
  TimeUnits :: real
  fchemcur :: "nvector option"
  RxNetData :: cvklu_data

text \<open>
  What a call of \<open>fimpl\<close> meets: whether \<open>check_flag\<close> reports the two profiler calls as
  failed, and the verdict of \<open>check_flag(&retval, ..., 1)\<close> on a return value.
\<close>

record fimpl_env =
  rhsfast_start_failed :: bool
  rhsfast_stop_failed :: bool
  check_flag_retval :: "int \<Rightarrow> bool"

text \<open>
  \<open>fimpl(t, w, wdot, user_data)\<close>: the result is the return value, the output vector
  \<open>wdot\<close> and the user data after the call.
\<close>

definition fimpl ::
  "fimpl_env \<Rightarrow> real \<Rightarrow> manyvector \<Rightarrow> manyvector \<Rightarrow> EulerData \<Rightarrow> int \<times> manyvector \<times> EulerData" where
  "fimpl env t w wdot udata =
     (if rhsfast_start_failed env then (- 1, wdot, udata)
      else
        let wdot1 = N_VConst_ManyVector 0 wdot in
        case N_VGetSubvector_MPIManyVector w 5 of
          None \<Rightarrow> (- 1, wdot1, udata)
        | Some wchem \<Rightarrow>
            (case N_VGetSubvector_MPIManyVector wdot1 5 of
               None \<Rightarrow> (- 1, wdot1, udata)
             | Some wchemdot \<Rightarrow>
                 (case calculate_rhs_cvklu t wchem wchemdot
                         (nxl udata * nyl udata * nzl udata) (RxNetData udata) of
                    (retval, wchemdot1, data1) \<Rightarrow>
                      let udata1 = udata\<lparr>RxNetData := data1\<rparr> in
                      if check_flag_retval env retval then (retval, wdot1[5 := wchemdot1], udata1)
                      else
                        let wchemdot2 = N_VScale (TimeUnits udata1) wchemdot1;
                            wdot2 = wdot1[5 := wchemdot2];
                            udata2 = (case fchemcur udata1 of
                                        None \<Rightarrow> udata1
                                      | Some fc \<Rightarrow> udata1\<lparr>fchemcur := Some (N_VScale 1 wchemdot2)\<rparr>)
                        in if rhsfast_stop_failed env then (- 1, wdot2, udata2)
                           else (0, wdot2, udata2))))"

text \<open>
  The solver content that \<open>ATimes_BDMPIMV\<close> uses, and what the call meets: the answers
  of the four ARKStep getters (current time, state, gamma and error weights), whether
  \<open>check_flag\<close> reports them or the profiler calls as failed, and its verdict on the
  return value of the chemistry routine.
\<close>

record BDMPIMVContent =
  subvec :: nat
  udata :: EulerData
  work :: manyvector
  nfeDQ :: int

record atimes_env =
  get_time_failed :: bool
  tcur :: real
  get_state_failed :: bool
  ycur :: manyvector
  get_gamma_failed :: bool
  gamma_cur :: real
  get_weights_failed :: bool
  err_weights :: manyvector
  latimes_start_failed :: bool
  latimes_stop_failed :: bool
  atimes_check_flag_retval :: "int \<Rightarrow> bool"

text \<open>
  \<open>ATimes_BDMPIMV(A_data, v, z)\<close>: the result is the return value, the output vector
  \<open>z\<close> and the content after the call. The source uses the subvectors of the current
  state and of the work vector, and \<open>fchemcur\<close>, without testing them for \<open>NULL\<close>;
  \<open>None\<close> is the call that dereferences a null pointer.
\<close>

definition ATimes_BDMPIMV ::
  "atimes_env \<Rightarrow> BDMPIMVContent \<Rightarrow> nvector \<Rightarrow> nvector \<Rightarrow> (int \<times> nvector \<times> BDMPIMVContent) option" where
  "ATimes_BDMPIMV env content v z =
     (if get_time_failed env then Some (- 1, z, content)
      else if get_state_failed env then Some (- 1, z, content)
      else if get_gamma_failed env then Some (- 1, z, content)
      else if get_weights_failed env then Some (- 1, z, content)
      else
        let work1 = err_weights env in
        case (N_VGetSubvector_MPIManyVector (ycur env) (subvec content),
              N_VGetSubvector_MPIManyVector work1 (subvec content)) of
          (Some y, Some w) \<Rightarrow>
            if latimes_start_failed env then Some (- 1, z, content\<lparr>work := work1\<rparr>)
            else
              let sig = 1 / N_VWrmsNorm v w;
                  w1 = N_VLinearSum sig v 1 y;
                  work2 = work1[subvec content := w1];
                  ud = udata content
              in (case calculate_rhs_cvklu (tcur env) w1 z
                         (nxl ud * nyl ud * nzl ud) (RxNetData ud) of
                    (retval, z1, data1) \<Rightarrow>
                      let content1 = content\<lparr>work := work2, nfeDQ := nfeDQ content + 1,
                                              udata := ud\<lparr>RxNetData := data1\<rparr>\<rparr> in
                      if atimes_check_flag_retval env retval then Some (retval, z1, content1)
                      else
                        let z2 = N_VScale (TimeUnits ud) z1;
                            siginv = 1 / sig
                        in (case fchemcur ud of
                              None \<Rightarrow> None
                            | Some fc \<Rightarrow>
                                let z3 = N_VLinearSum siginv z2 (- siginv) fc;
                                    z4 = N_VLinearSum 1 v (- gamma_cur env) z3
                                in if latimes_stop_failed env then Some (- 1, z4, content1)
                                   else Some (0, z4, content1)))
        | _ \<Rightarrow> None)"

text \<open>
  The surroundings in which the four getters and the two profiler calls succeed and
  \<open>check_flag\<close> does not report a return value of 0.
\<close>

definition atimes_calls_succeed :: "atimes_env \<Rightarrow> bool" where
  "atimes_calls_succeed env \<longleftrightarrow>
     \<not> get_time_failed env \<and> \<not> get_state_failed env \<and> \<not> get_gamma_failed env \<and>
     \<not> get_weights_failed env \<and> \<not> latimes_start_failed env \<and> \<not> latimes_stop_failed env \<and>
     \<not> atimes_check_flag_retval env 0"

section \<open>The parameter checks of main (imex_chem_hydro_main.cpp)\<close>

text \<open>The solver options that the checks read.\<close>

record ARKODEParameters =
  fixedstep :: int
  hmax :: real
  htrans :: real

text \<open>
  Why a process stops before the integrator exists: a library or helper call that
  \<open>check_flag\<close> reports as failed, or one of the three tests on the parameters, with the
  values its message shows.
\<close>

datatype fatal =
    Call_failed
  | Fixedstep_needs_hmax real
  | Htrans_not_below_dTout real real
  | No_chemical_species

text \<open>
  What the process has when it reaches \<open>ARKStepCreate\<close>.
\<close>

record at_ARKStepCreate =
  NoOutput :: int
  dTout :: real
  user_data :: EulerData
  options :: ARKODEParameters

text \<open>
  The surroundings of \<open>main\<close> up to \<open>ARKStepCreate\<close>: whether some call before the
  parameter tests (MPI start-up, profilers, \<open>load_inputs\<close>, \<open>SetupDecomp\<close>, the barrier)
  is reported as failed, and whether some call between the tests and \<open>ARKStepCreate\<close>
  (allocation of the vectors, the Dengo set-up, the initial conditions or the restart) is.
\<close>

record main_env =
  startup_call_failed :: bool
  setup_call_failed :: bool

text \<open>
  \<open>if (udata.nout <= 0) { NoOutput = 1; udata.nout = 1; }\<close>, and the output interval
  \<open>dTout = (udata.tf - udata.t0) / udata.nout\<close> computed right after it.
\<close>

definition set_NoOutput :: "EulerData \<Rightarrow> int \<times> EulerData" where
  "set_NoOutput ud = (if nout ud \<le> 0 then (1, ud\<lparr>nout := 1\<rparr>) else (0, ud))"

definition main_dTout :: "EulerData \<Rightarrow> real" where
  "main_dTout ud =
     (case set_NoOutput ud of (no_output, ud1) \<Rightarrow> (tf ud1 - t0 ud1) / real_of_int (nout ud1))"

text \<open>
  \<open>main\<close> from its start to the call of \<open>ARKStepCreate\<close>, for the options and user data
  that \<open>load_inputs\<close> and \<open>SetupDecomp\<close> produced. \<open>Inl\<close> is a process that calls
  \<open>MPI_Abort\<close> (or returns 1 when MPI does not start): the reason, and whether this
  process wrote the message for it to \<open>cerr\<close>, which only the process with
  \<open>myid = 0\<close> does. \<open>Inr\<close> is a process that goes on to create the integrator.
\<close>

definition main_until_ARKStepCreate ::
  "main_env \<Rightarrow> EulerData \<Rightarrow> ARKODEParameters \<Rightarrow> (fatal \<times> bool) + at_ARKStepCreate" where
  "main_until_ARKStepCreate env ud0 opts0 =
     (if startup_call_failed env then Inl (Call_failed, False)
      else
        case set_NoOutput ud0 of (no_output, ud) \<Rightarrow>
        let dT = (tf ud - t0 ud) / real_of_int (nout ud);
            outproc = (myid ud = 0)
        in if fixedstep opts0 \<noteq> 0 \<and> hmax opts0 \<le> 0
             then Inl (Fixedstep_needs_hmax (hmax opts0), outproc)
           else
             let opts = (if fixedstep opts0 \<noteq> 0 \<and> htrans opts0 > 0
                         then opts0\<lparr>fixedstep := 2\<rparr> else opts0)
             in if htrans opts \<ge> dT
                  then Inl (Htrans_not_below_dTout (htrans opts) dT, outproc)
                else if nchem ud = 0 then Inl (No_chemical_species, outproc)
                else if setup_call_failed env then Inl (Call_failed, False)
                else Inr \<lparr>NoOutput = no_output, dTout = dT, user_data = ud, options = opts\<rparr>)"

section \<open>Unit scaling of the chemistry sub-block\<close>

text \<open>
  Modelled from the spec: \<open>apply_Dengo_scaling\<close> and \<open>unapply_Dengo_scaling\<close> are declared
  and called in imex_chem_hydro_main.cpp, but their bodies are not among the sources.
  The specification describes them as a pair of mutually inverse operations on the
  chemistry sub-block (subvector 5 of the state), built on the element-wise factors
  \<open>scale\<close> and \<open>inv_scale\<close> of the network data: applying multiplies every entry by its
  \<open>scale\<close> factor, un-applying multiplies it by its \<open>inv_scale\<close> factor. Both return 0.
\<close>

definition apply_Dengo_scaling :: "manyvector \<Rightarrow> EulerData \<Rightarrow> int \<times> manyvector" where
  "apply_Dengo_scaling w ud =
     (0, w[5 := map (\<lambda>(c, s). c * s) (zip (w ! 5) (scale (RxNetData ud)))])"

definition unapply_Dengo_scaling :: "manyvector \<Rightarrow> EulerData \<Rightarrow> int \<times> manyvector" where
  "unapply_Dengo_scaling w ud =
     (0, w[5 := map (\<lambda>(c, s). c * s) (zip (w ! 5) (inv_scale (RxNetData ud)))])"

text \<open>
  Modelled from the spec: the code that fills \<open>scale\<close> and \<open>inv_scale\<close> is not among the
  sources either (\<open>cvklu_setup_data\<close> only allocates the two arrays; the routines that
  prepare the network data are declared and called in imex_chem_hydro_main.cpp). The
  specification describes applying and un-applying as mutually inverse operations, which
  for multiplication by \<open>scale\<close> and by \<open>inv_scale\<close> means that \<open>inv_scale\<close> holds the
  reciprocals of \<open>scale\<close>; the chemistry routines use the two arrays in that way,
  multiplying the state by \<open>scale\<close> and the rates by \<open>inv_scale\<close>. For the factors \<open>s\<close>
  of the sub-block the model stores \<open>s\<close> in \<open>scale\<close> and the reciprocals in
  \<open>inv_scale\<close>.
\<close>

definition store_Dengo_scaling :: "real list \<Rightarrow> EulerData \<Rightarrow> EulerData" where
  "store_Dengo_scaling s ud =
     ud\<lparr>RxNetData := (RxNetData ud)\<lparr>scale := s, inv_scale := map (\<lambda>x. 1 / x) s\<rparr>\<rparr>"

section \<open>The smoke test problem (compile_test.cpp)\<close>

text \<open>
  The five fluid arrays of an \<open>N_Vector\<close> share one index. The macros that flatten a
  cell \<open>(i, j, k)\<close>, or a species and a cell, into an array index are not among the
  sources, so the model indexes the fluid arrays by the cell and the chemistry array by
  species and cell. What \<open>N_VGetSubvectorArrayPointer_MPIManyVector\<close> hands out for a
  subvector is its array, or \<open>NULL\<close> (\<open>None\<close>).
\<close>

type_synonym cell = "int \<times> int \<times> int"





section \<open>The explicit hydrodynamic right-hand side\<close>























section \<open>Sample inputs\<close>

text \<open>
  A one-cell network structure as the program builds it: the allocated structure with
  one entry per cell, \<open>cvklu_setup_data\<close> applied to it, and then the scale arrays filled
  in. The gamma tables are constant and every rate table holds its index at each entry;
  the species scales are the argument.
\<close>

definition fresh_data :: cvklu_data where
  "fresh_data =
     \<lparr>nstrip = 0, Ts = [0], dTs_ge = [0], mdensity = [0], inv_mdensity = [0],
      cie_optical_depth_approx = [0], h2_optical_depth_approx = [0],
      scale = replicate 10 0, inv_scale = replicate 10 0,
      current_z = 0, bounds = [0, 0], nbins = 0, dbin = 0, idbin = 0,
      tab = (\<lambda>_ _. 0), rs = (\<lambda>_. [0]), drs = (\<lambda>_. [0]),
      g_gammaH2_1 = (\<lambda>_. 0), g_dgammaH2_1_dT = (\<lambda>_. 0),
      g_gammaH2_2 = (\<lambda>_. 0), g_dgammaH2_2_dT = (\<lambda>_. 0)\<rparr>"

definition sample_data :: "real \<Rightarrow> cvklu_data" where
  "sample_data s =
     setting_up_extra_variables
       ((cvklu_setup_data fresh_data 1 0 (\<lambda>_ k. real k)
           (\<lambda>_. 7 / 5, \<lambda>_. 0, \<lambda>_. 7 / 5, \<lambda>_. 0))
          \<lparr>scale := replicate 10 s, inv_scale := replicate 10 (1 / s)\<rparr>) 1"

text \<open>
  User data, vectors and surroundings for one rank that owns one cell: five fluid
  subvectors of one entry and the chemistry subvector of ten, every call succeeding.
\<close>

definition sample_udata :: EulerData where
  "sample_udata =
     \<lparr>myid = 0, t0 = 0, tf = 1, nout = 10, nchem = 10, nxl = 1, nyl = 1, nzl = 1,
      TimeUnits = 3, fchemcur = Some (replicate 10 0), RxNetData = sample_data 2\<rparr>"

definition sample_w :: manyvector where
  "sample_w = [4] # [1 / 2] # [3 / 10] # [1 / 10] # [2] # [replicate 10 1]"

definition sample_fimpl_env :: fimpl_env where
  "sample_fimpl_env =
     \<lparr>rhsfast_start_failed = False, rhsfast_stop_failed = False,
      check_flag_retval = (\<lambda>r. r < 0)\<rparr>"

definition sample_v :: nvector where
  "sample_v = replicate 10 1"

definition sample_z :: nvector where
  "sample_z = replicate 10 0"


definition sample_atimes_env :: atimes_env where
  "sample_atimes_env =
     \<lparr>get_time_failed = False, tcur = 0, get_state_failed = False, ycur = sample_w,
      get_gamma_failed = False, gamma_cur = 1 / 2, get_weights_failed = False,
      err_weights = sample_w, latimes_start_failed = False, latimes_stop_failed = False,
      atimes_check_flag_retval = (\<lambda>r. r < 0)\<rparr>"

text \<open>
  One rank's surroundings for \<open>Solve_BDMPIMV\<close> in which every call succeeds and the block
  solver returns the given code, and options for the parameter checks of \<open>main\<close>.
\<close>

definition quiet_env :: "cint \<Rightarrow> solve_env" where
  "quiet_env ierr =
     \<lparr>lsolve_start_failed = False, xsub_null = False, bsub_null = False,
      blockLS_ierr = ierr, lsolvempi_start_failed = False, allreduce_failed = False,
      lsolvempi_stop_failed = False, lsolve_stop_failed = False\<rparr>"

definition sample_options :: "real \<Rightarrow> ARKODEParameters" where
  "sample_options h = \<lparr>fixedstep = 0, hmax = 0, htrans = h\<rparr>"

definition sample_main_env :: main_env where
  "sample_main_env = \<lparr>startup_call_failed = False, setup_call_failed = False\<rparr>"






text \<open>The solver content right after \<open>fimpl\<close> has run on the sample state.\<close>

definition sample_content :: BDMPIMVContent where
  "sample_content =
     \<lparr>subvec = 5,
      udata = snd (snd (fimpl sample_fimpl_env 0 sample_w sample_w sample_udata)),
      work = sample_w, nfeDQ = 0\<rparr>"

section \<open>Signed minimum and the collective\<close>

lemma sint_smin: "sint (smin a b) = min (sint a) (sint b)"
  by (simp add: smin_def word_sless_alt min_def)

lemma sint_fold_smin: "sint (fold smin xs x) = Min (sint ` set (x # xs))"
proof (induction xs arbitrary: x)
  case Nil
  show ?case by simp
next
  case (Cons y ys)
  have "sint (fold smin (y # ys) x) = Min (sint ` set (smin y x # ys))"
    using Cons.IH by simp
  also have "\<dots> = Min (sint ` set (x # y # ys))"
  proof (cases ys)
    case Nil
    then show ?thesis by (simp add: sint_smin min.commute)
  next
    case (Cons z zs)
    then show ?thesis by (simp add: sint_smin min.assoc min.left_commute min.commute)
  qed
  finally show ?case .
qed

lemma sint_uminus_cint:
  fixes x :: cint
  assumes "sint x \<noteq> - (2 ^ 31)"
  shows "sint (- x) = - sint x"
proof -
  have lo: "- (2 ^ 31) \<le> sint x" and hi: "sint x < 2 ^ 31"
    using sint_ge [of x] sint_lt [of x] by simp_all
  have "sint (- x) = signed_take_bit 31 (- sint x)"
    by (simp add: sint_word_ariths)
  also have "\<dots> = - sint x"
    using lo hi assms by (intro signed_take_bit_int_eq_self) simp_all
  finally show ?thesis .
qed

lemma Min_uminus_image:
  fixes S :: "int set"
  assumes "finite S" "S \<noteq> {}"
  shows "Min (uminus ` S) = - Max S"
proof (rule Min_eqI)
  show "finite (uminus ` S)" using assms by simp
next
  fix y assume "y \<in> uminus ` S"
  then obtain s where "s \<in> S" "y = - s" by auto
  then show "- Max S \<le> y" using assms by simp
next
  show "- Max S \<in> uminus ` S" using assms by simp
qed

lemma enter_ok:
  "calls_succeed env \<Longrightarrow> Solve_BDMPIMV_enter env lf = Inr [blockLS_ierr env, - blockLS_ierr env]"
  by (simp add: calls_succeed_def Solve_BDMPIMV_enter_def Let_def)

lemma leave_ok:
  "calls_succeed env \<Longrightarrow> returned (Solve_BDMPIMV_leave env lf g) =
     (if g ! 0 <s 0 then g ! 0 else - (g ! 1))"
  by (simp add: calls_succeed_def Solve_BDMPIMV_leave_def)

lemma allreduce_two:
  assumes "bufs \<noteq> []"
  shows "sint (MPI_Allreduce_MIN bufs 2 ! 0) = Min ((\<lambda>b. sint (b ! 0)) ` set bufs)"
    and "sint (MPI_Allreduce_MIN bufs 2 ! 1) = Min ((\<lambda>b. sint (b ! 1)) ` set bufs)"
proof -
  obtain b bs where bufs: "bufs = b # bs" using assms by (cases bufs) auto
  have two: "[0..<2] = [0, Suc 0]" by (simp add: upt_rec)
  show "sint (MPI_Allreduce_MIN bufs 2 ! 0) = Min ((\<lambda>b. sint (b ! 0)) ` set bufs)"
    by (simp add: MPI_Allreduce_MIN_def two bufs sint_fold_smin image_image)
  show "sint (MPI_Allreduce_MIN bufs 2 ! 1) = Min ((\<lambda>b. sint (b ! 1)) ` set bufs)"
    by (simp add: MPI_Allreduce_MIN_def two bufs sint_fold_smin image_image)
qed

text \<open>
  Claim C1. When on every rank the profiler and MPI calls succeed and both subvectors
  exist, one collective call of \<open>Solve_BDMPIMV\<close> returns the same status code on every
  rank, whatever the ranks' local solvers returned: if some local code is negative it is
  the smallest of the local codes, otherwise it is the largest. So no rank returns
  success while another rank's local solve failed.
\<close>

theorem Solve_BDMPIMV_consistent:
  assumes ne: "ranks \<noteq> []"
    and ok: "\<forall>r\<in>set ranks. calls_succeed (fst r)"
  shows "\<exists>g. map (map_option returned) (Solve_BDMPIMV ranks) = replicate (length ranks) (Some g) \<and>
           sint g = (if \<exists>r\<in>set ranks. blockLS_ierr (fst r) <s 0
                     then Min ((\<lambda>r. sint (blockLS_ierr (fst r))) ` set ranks)
                     else Max ((\<lambda>r. sint (blockLS_ierr (fst r))) ` set ranks))"
proof -
  define ierr where "ierr = (\<lambda>r :: solve_env \<times> cint. blockLS_ierr (fst r))"
  define bufs where "bufs = map (\<lambda>r. [ierr r, - ierr r]) ranks"
  define g where "g = MPI_Allreduce_MIN bufs 2"
  define S where "S = (\<lambda>r. sint (ierr r)) ` set ranks"
  have S_fin: "finite S" and S_ne: "S \<noteq> {}"
    using ne by (simp_all add: S_def)
  have entered: "map (\<lambda>(env, lf). Solve_BDMPIMV_enter env lf) ranks = map Inr bufs"
    using ok by (auto simp: bufs_def ierr_def enter_ok)
  have all_in: "list_all is_Inr (map Inr bufs :: (solve_result + cint list) list)"
    by (simp add: list_all_iff is_Inr_def)
  have projs: "map projr (map Inr bufs :: (solve_result + cint list) list) = bufs"
    by (simp add: comp_def)
  have res: "map (map_option returned) (Solve_BDMPIMV ranks) =
        map (\<lambda>r. Some (if g ! 0 <s 0 then g ! 0 else - (g ! 1))) ranks"
  proof -
    have "Solve_BDMPIMV ranks = map (\<lambda>(env, lf). Some (Solve_BDMPIMV_leave env lf g)) ranks"
      unfolding Solve_BDMPIMV_def entered Let_def projs g_def using all_in by simp
    also have "map (map_option returned) \<dots> =
        map (\<lambda>r. Some (if g ! 0 <s 0 then g ! 0 else - (g ! 1))) ranks"
      using ok by (auto simp: leave_ok simp del: One_nat_def)
    finally show ?thesis .
  qed
  have bufs_ne: "bufs \<noteq> []" using ne by (simp add: bufs_def)
  have g0: "sint (g ! 0) = Min S"
    unfolding g_def allreduce_two(1) [OF bufs_ne]
    by (simp add: bufs_def S_def image_image)
  have g1: "sint (g ! 1) = Min ((\<lambda>r. sint (- ierr r)) ` set ranks)"
    unfolding g_def allreduce_two(2) [OF bufs_ne]
    by (simp add: bufs_def image_image)
  show ?thesis
  proof (cases "\<exists>r\<in>set ranks. ierr r <s 0")
    case True
    then obtain r where r: "r \<in> set ranks" "sint (ierr r) < 0"
      by (auto simp: word_sless_alt)
    have "Min S \<le> sint (ierr r)"
      using r(1) S_fin by (simp add: S_def)
    then have neg: "g ! 0 <s 0"
      using r(2) g0 by (simp add: word_sless_alt)
    have "map (map_option returned) (Solve_BDMPIMV ranks) = replicate (length ranks) (Some (g ! 0))"
      using res neg by (simp add: map_replicate_const)
    moreover have "sint (g ! 0) = Min S" by (rule g0)
    ultimately show ?thesis
      using True unfolding S_def ierr_def by (intro exI [of _ "g ! 0"]) simp
  next
    case False
    then have nonneg: "\<And>r. r \<in> set ranks \<Longrightarrow> 0 \<le> sint (ierr r)"
      by (auto simp: word_sless_alt not_less)
    have neg_each: "\<And>r. r \<in> set ranks \<Longrightarrow> sint (- ierr r) = - sint (ierr r)"
      using nonneg by (intro sint_uminus_cint) fastforce
    have "(\<lambda>r. sint (- ierr r)) ` set ranks = uminus ` S"
      using neg_each by (auto simp: S_def image_iff)
    then have g1': "sint (g ! 1) = - Max S"
      using g1 Min_uminus_image [OF S_fin S_ne] by simp
    have "Min S \<in> S" using S_fin S_ne by (rule Min_in)
    then have "0 \<le> Min S" using nonneg by (auto simp: S_def)
    then have not_neg: "\<not> g ! 0 <s 0"
      using g0 by (simp add: word_sless_alt)
    have "Max S \<in> S" using S_fin S_ne by (rule Max_in)
    then obtain m where m: "m \<in> set ranks" "Max S = sint (ierr m)"
      by (auto simp: S_def)
    have "sint (ierr m) < 2 ^ 31" using sint_lt [of "ierr m"] by simp
    then have "sint (g ! 1) \<noteq> - (2 ^ 31)" using g1' m(2) by simp
    then have negg1: "sint (- (g ! 1)) = Max S"
      using g1' by (simp add: sint_uminus_cint)
    have "map (map_option returned) (Solve_BDMPIMV ranks) =
            replicate (length ranks) (Some (- (g ! 1)))"
      using res not_neg by (simp add: map_replicate_const)
    then show ?thesis
      using False negg1 unfolding S_def ierr_def by (intro exI [of _ "- (g ! 1)"]) simp
  qed
qed

theorem Solve_BDMPIMV_consistent_witness:
  "calls_succeed (quiet_env 0) \<and> calls_succeed (quiet_env (- 3)) \<and> calls_succeed (quiet_env 5)
   \<and> calls_succeed (quiet_env 2) \<and> calls_succeed (quiet_env 1)
   \<and> (\<exists>g. map (map_option returned)
              (Solve_BDMPIMV [(quiet_env 0, 0), (quiet_env (- 3), 0), (quiet_env 5, 0)])
            = [Some g, Some g, Some g] \<and> sint g = - 3)
   \<and> (\<exists>g. map (map_option returned)
              (Solve_BDMPIMV [(quiet_env 0, 7), (quiet_env 2, 7), (quiet_env 1, 7)])
            = [Some g, Some g, Some g] \<and> sint g = 2)"
proof -
  have each: "calls_succeed (quiet_env c)" for c
    by (simp add: calls_succeed_def quiet_env_def)
  have ne: "[(quiet_env 0, 0), (quiet_env (- 3), 0), (quiet_env 5, 0 :: cint)] \<noteq> []" by simp
  have ok: "\<forall>r\<in>set [(quiet_env 0, 0), (quiet_env (- 3), 0), (quiet_env 5, 0 :: cint)]. calls_succeed (fst r)"
    by (simp add: each)
  have ne2: "[(quiet_env 0, 7), (quiet_env 2, 7), (quiet_env 1, 7 :: cint)] \<noteq> []" by simp
  have ok2: "\<forall>r\<in>set [(quiet_env 0, 7), (quiet_env 2, 7), (quiet_env 1, 7 :: cint)]. calls_succeed (fst r)"
    by (simp add: each)
  have negative: "\<exists>g. map (map_option returned)
              (Solve_BDMPIMV [(quiet_env 0, 0), (quiet_env (- 3), 0), (quiet_env 5, 0)])
            = [Some g, Some g, Some g] \<and> sint g = - 3"
    using Solve_BDMPIMV_consistent [OF ne ok]
    by (simp add: quiet_env_def word_sless_alt numeral_3_eq_3)
  have recoverable: "\<exists>g. map (map_option returned)
              (Solve_BDMPIMV [(quiet_env 0, 7), (quiet_env 2, 7), (quiet_env 1, 7)])
            = [Some g, Some g, Some g] \<and> sint g = 2"
    using Solve_BDMPIMV_consistent [OF ne2 ok2]
    by (simp add: quiet_env_def word_sless_alt numeral_3_eq_3)
  show ?thesis
    by (intro conjI each negative recoverable)
qed

section \<open>Table lookup and the temperature solve\<close>





lemma sample_data_scales:
  "scale (sample_data s) = replicate 10 s"
  "inv_scale (sample_data s) = replicate 10 (1 / s)"
  by (simp_all add: sample_data_def setting_up_extra_variables_def extra_variables_cell_def
      cvklu_setup_data_def fresh_data_def NSPECIES_def Let_def)







subsection \<open>The Newton loop\<close>











subsection \<open>The rate lookup of \<open>calculate_rhs_cvklu\<close>\<close>

lemma interpolate_rates_frame:
  "Ts (cvklu_interpolate_rates d i) = Ts d"
  "scale (cvklu_interpolate_rates d i) = scale d"
  "inv_scale (cvklu_interpolate_rates d i) = inv_scale d"
  "inv_mdensity (cvklu_interpolate_rates d i) = inv_mdensity d"
  "mdensity (cvklu_interpolate_rates d i) = mdensity d"
  by (simp_all add: cvklu_interpolate_rates_def Let_def)

lemma update_temperature_frame:
  "scale (update_temperature d y i) = scale d"
  "inv_scale (update_temperature d y i) = inv_scale d"
  "inv_mdensity (update_temperature d y i) = inv_mdensity d"
  "mdensity (update_temperature d y i) = mdensity d"
  "tab (update_temperature d y i) = tab d"
  "bounds (update_temperature d y i) = bounds d"
  "nbins (update_temperature d y i) = nbins d"
  "idbin (update_temperature d y i) = idbin d"
  "dbin (update_temperature d y i) = dbin d"
  "rs (update_temperature d y i) = rs d"
  by (simp_all add: update_temperature_def Let_def)

lemma snd_rhs_cell:
  "snd (rhs_cell y i (ydot, d)) =
     cvklu_interpolate_rates (update_temperature d (scaled_species y d i) i) i"
  by (simp add: rhs_cell_def Let_def)










section \<open>The chemistry right-hand side\<close>

lemma fst_calculate_rhs_cvklu [simp]: "fst (calculate_rhs_cvklu t y ydot n data) = 0"
  by (simp add: calculate_rhs_cvklu_def split: prod.splits)

lemma sample_mdensity:
  "mdensity (sample_data s) = [(s * 2 + s * 2 + s * 1.00794 + s * 1.00794 + s * 1.00794
      + s * 4.002602 + s * 4.002602 + s * 4.002602) * (1.67 / 10 ^ 24)]"
  by (simp add: sample_data_def setting_up_extra_variables_def extra_variables_cell_def
      cvklu_setup_data_def fresh_data_def NSPECIES_def Let_def)

text \<open>
  Claim C2 as stated fails: for the one-cell network whose species scales are all \<open>-1\<close>
  the mixture density that \<open>setting_up_extra_variables\<close> computes is negative, and
  \<open>calculate_rhs_cvklu\<close> returns 0.
\<close>

theorem negative_density_returns_zero:
  "mdensity (sample_data (- 1)) ! 0 < 0
   \<and> fst (calculate_rhs_cvklu 0 sample_v sample_z 1 (sample_data (- 1))) = 0"
  by (simp add: sample_mdensity calculate_rhs_cvklu_def split: prod.splits)

text \<open>
  Claim C2, amended. \<open>calculate_rhs_cvklu\<close> does not look at the sign of the mixture
  density: in the host build it returns 0 for every input, data structure and number of
  cells.
\<close>

theorem calculate_rhs_cvklu_returns_zero:
  "fst (calculate_rhs_cvklu t y ydot n data) = 0"
  by (simp add: calculate_rhs_cvklu_def split: prod.splits)

lemma rhs_cell_scales:
  "scale (snd (rhs_cell y i (ydot, d))) = scale d"
  "inv_scale (snd (rhs_cell y i (ydot, d))) = inv_scale d"
  by (simp_all add: snd_rhs_cell interpolate_rates_frame update_temperature_frame)

lemma length_rhs_cell:
  "length (fst (rhs_cell y i (ydot, d))) = length ydot"
  by (simp add: rhs_cell_def Let_def)

lemma rhs_cell_below:
  "k < i * NSPECIES \<Longrightarrow> fst (rhs_cell y i (ydot, d)) ! k = ydot ! k"
  by (simp add: rhs_cell_def Let_def)

lemma rhs_cell_entry:
  assumes "m < 9" and "i * NSPECIES + 10 \<le> length ydot"
  shows "fst (rhs_cell y i (ydot, d)) ! (i * NSPECIES + m) =
         species_rates (snd (rhs_cell y i (ydot, d))) i (scaled_species y d i) ! m
           * inv_scale d ! (i * NSPECIES + m)"
proof -
  from assms(1) consider "m = 0" | "m = 1" | "m = 2" | "m = 3" | "m = 4" | "m = 5"
    | "m = 6" | "m = 7" | "m = 8" by linarith
  then show ?thesis
    using assms(2)
    by cases
      (simp_all add: rhs_cell_def Let_def interpolate_rates_frame update_temperature_frame)
qed

lemma species_rates_helium:
  "species_rates d i y ! 5 + species_rates d i y ! 6 + species_rates d i y ! 7 = 0"
  by (simp add: species_rates_def Let_def)

lemma species_rates_hydrogen:
  "2 * (species_rates d i y ! 0 + species_rates d i y ! 1)
     + species_rates d i y ! 2 + species_rates d i y ! 3 + species_rates d i y ! 4 = 0"
  by (simp add: species_rates_def Let_def algebra_simps)

lemma fold_rhs_cell_invariant:
  assumes "n * NSPECIES \<le> length ydot"
  shows "length (fst (fold (rhs_cell y) [0..<n] (ydot, d))) = length ydot
    \<and> scale (snd (fold (rhs_cell y) [0..<n] (ydot, d))) = scale d
    \<and> inv_scale (snd (fold (rhs_cell y) [0..<n] (ydot, d))) = inv_scale d
    \<and> (\<forall>i<n. \<exists>D Y. \<forall>m<9.
          fst (fold (rhs_cell y) [0..<n] (ydot, d)) ! (i * NSPECIES + m) =
          species_rates D i Y ! m * inv_scale d ! (i * NSPECIES + m))"
  using assms
proof (induction n)
  case 0
  show ?case by simp
next
  case (Suc n)
  define st where "st = fold (rhs_cell y) [0..<n] (ydot, d)"
  define out where "out = fst st"
  define D' where "D' = snd st"
  have st: "st = (out, D')" by (simp add: out_def D'_def)
  have n_le: "n * NSPECIES \<le> length ydot"
    using Suc.prems by simp
  have room: "n * NSPECIES + 10 \<le> length ydot"
    using Suc.prems by (simp add: NSPECIES_def)
  from Suc.IH [OF n_le]
  have len: "length out = length ydot"
    and sc: "scale D' = scale d"
    and isc: "inv_scale D' = inv_scale d"
    and old: "\<forall>i<n. \<exists>D Y. \<forall>m<9.
        out ! (i * NSPECIES + m) = species_rates D i Y ! m * inv_scale d ! (i * NSPECIES + m)"
    by (simp_all add: st_def [symmetric] out_def D'_def)
  have step: "fold (rhs_cell y) [0..<Suc n] (ydot, d) = rhs_cell y n (out, D')"
    by (simp add: st_def [symmetric] st)
  have "\<exists>D Y. \<forall>m<9. fst (rhs_cell y n (out, D')) ! (i * NSPECIES + m) =
          species_rates D i Y ! m * inv_scale d ! (i * NSPECIES + m)"
    if "i < Suc n" for i
  proof (cases "i < n")
    case True
    then obtain D Y where DY: "\<forall>m<9. out ! (i * NSPECIES + m) =
        species_rates D i Y ! m * inv_scale d ! (i * NSPECIES + m)"
      using old by blast
    have "i * NSPECIES + m < n * NSPECIES" if "m < 9" for m
    proof -
      have "Suc i \<le> n" using True by simp
      then have "Suc i * NSPECIES \<le> n * NSPECIES" by (rule mult_le_mono1)
      then show ?thesis using that by (simp add: NSPECIES_def)
    qed
    then show ?thesis
      using DY by (intro exI [of _ D] exI [of _ Y]) (simp add: rhs_cell_below)
  next
    case False
    with that have "i = n" by simp
    then show ?thesis
      using room len isc
      by (intro exI [of _ "snd (rhs_cell y n (out, D'))"] exI [of _ "scaled_species y D' n"])
        (simp add: rhs_cell_entry)
  qed
  then show ?case
    unfolding step using len sc isc by (simp add: length_rhs_cell rhs_cell_scales)
qed

lemma length_fold_rhs_cell:
  "length (fst (fold (rhs_cell y) ns st)) = length (fst st)"
proof (induction ns arbitrary: st)
  case Nil
  show ?case by simp
next
  case (Cons n ns)
  obtain ydot d where st: "st = (ydot, d)" by (cases st)
  show ?case
    using Cons.IH [of "rhs_cell y n st"]
    by (simp add: st rhs_cell_def Let_def)
qed

lemma length_calculate_rhs_cvklu:
  "length (fst (snd (calculate_rhs_cvklu t y ydot n data))) = length ydot"
  using length_fold_rhs_cell [of y "[0..<nat n]" "(ydot, data)"]
  by (simp add: calculate_rhs_cvklu_def split: prod.splits)

text \<open>
  Claim C10. For a cell \<open>i\<close> of the strip whose \<open>scale\<close> and \<open>inv_scale\<close> factors are
  inverse to each other, the rates that \<open>calculate_rhs_cvklu\<close> writes, multiplied back by
  their scale factors, conserve the nuclei whatever the rate coefficients are: the three
  helium rates sum to zero, and twice the two molecular hydrogen rates plus the three
  atomic hydrogen rates sum to zero.
\<close>

theorem rhs_conserves_nuclei:
  assumes cell: "i < nat n"
    and room: "nat n * NSPECIES \<le> length ydot"
    and inverse: "\<forall>m<8. inv_scale data ! (i * NSPECIES + m) * scale data ! (i * NSPECIES + m) = 1"
  shows "(let out = fst (snd (calculate_rhs_cvklu t y ydot n data));
              phys = (\<lambda>m. out ! (i * NSPECIES + m) * scale data ! (i * NSPECIES + m))
          in phys 5 + phys 6 + phys 7 = 0
             \<and> 2 * (phys 0 + phys 1) + phys 2 + phys 3 + phys 4 = 0)"
proof -
  define out where "out = fst (fold (rhs_cell y) [0..<nat n] (ydot, data))"
  have out: "fst (snd (calculate_rhs_cvklu t y ydot n data)) = out"
    by (simp add: calculate_rhs_cvklu_def out_def split: prod.splits)
  obtain D Y where DY: "\<forall>m<9. out ! (i * NSPECIES + m) =
      species_rates D i Y ! m * inv_scale data ! (i * NSPECIES + m)"
    using fold_rhs_cell_invariant [OF room, of y data] cell unfolding out_def by blast
  have phys: "out ! (i * NSPECIES + m) * scale data ! (i * NSPECIES + m) = species_rates D i Y ! m"
    if "m < 8" for m
  proof -
    have "out ! (i * NSPECIES + m) * scale data ! (i * NSPECIES + m) =
        species_rates D i Y ! m
          * (inv_scale data ! (i * NSPECIES + m) * scale data ! (i * NSPECIES + m))"
      using DY that by simp
    then show ?thesis using inverse that by simp
  qed
  show ?thesis
    unfolding out Let_def
    using species_rates_helium [of D i Y] species_rates_hydrogen [of D i Y]
      phys [of 0] phys [of 1] phys [of 2] phys [of 3] phys [of 4] phys [of 5] phys [of 6] phys [of 7]
    by simp
qed

theorem rhs_conserves_nuclei_witness:
  "(0 :: nat) < nat 1
   \<and> nat 1 * NSPECIES \<le> length sample_z
   \<and> list_all (\<lambda>m. inv_scale (sample_data 2) ! (0 * NSPECIES + m)
                     * scale (sample_data 2) ! (0 * NSPECIES + m) = 1) [0..<8]
   \<and> (let out = fst (snd (calculate_rhs_cvklu 0 sample_v sample_z 1 (sample_data 2)));
           phys = (\<lambda>m. out ! (0 * NSPECIES + m) * scale (sample_data 2) ! (0 * NSPECIES + m))
       in phys 5 + phys 6 + phys 7 = 0
          \<and> 2 * (phys 0 + phys 1) + phys 2 + phys 3 + phys 4 = 0)"
proof -
  have cell: "(0 :: nat) < nat 1" by simp
  have room: "nat 1 * NSPECIES \<le> length sample_z"
    by (simp add: NSPECIES_def sample_z_def)
  have inverse: "\<forall>m<8. inv_scale (sample_data 2) ! (0 * NSPECIES + m)
      * scale (sample_data 2) ! (0 * NSPECIES + m) = 1"
    by (simp add: sample_data_scales)
  then have listed: "list_all (\<lambda>m. inv_scale (sample_data 2) ! (0 * NSPECIES + m)
                     * scale (sample_data 2) ! (0 * NSPECIES + m) = 1) [0..<8]"
    by (simp add: list_all_iff)
  show ?thesis
    by (intro conjI cell room listed rhs_conserves_nuclei [OF cell room inverse])
qed

section \<open>The implicit right-hand side and the matrix-free product\<close>

lemma fst_fimpl_sample:
  "fst (fimpl sample_fimpl_env 0 sample_w sample_w sample_udata) = 0"
  by (simp add: fimpl_def sample_fimpl_env_def sample_w_def Let_def case_prod_beta
      N_VGetSubvector_MPIManyVector_def N_VConst_ManyVector_def)

text \<open>
  Claim C9. Whenever \<open>fimpl\<close> returns 0, the output vector has its six subvectors and
  the five fluid subvectors (density, the three momenta, total energy) are zero in every
  entry: \<open>fimpl\<close> zeroes the whole output and then writes the chemistry subvector only.
\<close>

theorem fimpl_fluid_rates_zero:
  assumes "fst (fimpl env t w wdot ud) = 0"
  shows "length (fst (snd (fimpl env t w wdot ud))) = length wdot
       \<and> 5 < length wdot
       \<and> (\<forall>k<5. fst (snd (fimpl env t w wdot ud)) ! k = replicate (length (wdot ! k)) 0)"
  using assms
  by (auto simp: fimpl_def Let_def N_VGetSubvector_MPIManyVector_def N_VConst_ManyVector_def
      N_VConst_def map_replicate_const
      split: if_splits option.splits prod.splits)

theorem fimpl_fluid_rates_zero_witness:
  "fst (fimpl sample_fimpl_env 0 sample_w sample_w sample_udata) = 0
   \<and> take 5 (fst (snd (fimpl sample_fimpl_env 0 sample_w sample_w sample_udata))) = replicate 5 [0]"
proof -
  have ret: "fst (fimpl sample_fimpl_env 0 sample_w sample_w sample_udata) = 0"
    by (rule fst_fimpl_sample)
  have one: "replicate (length (sample_w ! k)) (0 :: real) = [0]" if "k < 5" for k
    using that by (simp add: sample_w_def nth_Cons split: nat.splits)
  have "take 5 (fst (snd (fimpl sample_fimpl_env 0 sample_w sample_w sample_udata))) = replicate 5 [0]"
    using fimpl_fluid_rates_zero [OF ret] one
    by (intro nth_equalityI) (simp_all add: sample_w_def)
  then show ?thesis
    using ret by simp
qed

lemma fimpl_caches_rhs:
  assumes "fst (fimpl env t w wdot ud) = 0" and "fchemcur ud = Some fc0"
    and "\<not> check_flag_retval env 0"
  shows "fchemcur (snd (snd (fimpl env t w wdot ud))) = Some (fst (snd (fimpl env t w wdot ud)) ! 5)
    \<and> TimeUnits (snd (snd (fimpl env t w wdot ud))) = TimeUnits ud
    \<and> fst (snd (fimpl env t w wdot ud)) ! 5 =
        map (\<lambda>x. TimeUnits ud * x)
          (fst (snd (calculate_rhs_cvklu t (w ! 5) (replicate (length (wdot ! 5)) 0)
             (nxl ud * nyl ud * nzl ud) (RxNetData ud))))"
  using assms
  by (auto simp: fimpl_def Let_def N_VGetSubvector_MPIManyVector_def N_VConst_ManyVector_def
      N_VConst_def N_VScale_def map_replicate_const
      split: if_splits option.splits prod.splits)

lemma N_VLinearSum_nth:
  assumes "length x = length y"
  shows "N_VLinearSum a x b y = map (\<lambda>k. a * x ! k + b * y ! k) [0..<length x]"
  using assms by (intro nth_equalityI) (simp_all add: N_VLinearSum_def)

lemma ATimes_formula:
  assumes getters: "\<not> get_time_failed env" "\<not> get_state_failed env"
      "\<not> get_gamma_failed env" "\<not> get_weights_failed env"
    and timers: "\<not> latimes_start_failed env" "\<not> latimes_stop_failed env"
    and flag: "\<not> atimes_check_flag_retval env 0"
    and sub: "subvec content < length (ycur env)" "subvec content < length (err_weights env)"
    and fc: "fchemcur (udata content) = Some fc"
    and len: "length (ycur env ! subvec content) = length v" "length z = length v"
      "length fc = length v"
  shows "ATimes_BDMPIMV env content v z =
     (let sigma = 1 / N_VWrmsNorm v (err_weights env ! subvec content);
          y = ycur env ! subvec content;
          ud = udata content;
          res = calculate_rhs_cvklu (tcur env)
                  (map (\<lambda>k. y ! k + sigma * v ! k) [0..<length v]) z
                  (nxl ud * nyl ud * nzl ud) (RxNetData ud);
          f = fst (snd res)
      in Some (0,
               map (\<lambda>k. v ! k - gamma_cur env * ((TimeUnits ud * f ! k - fc ! k) / sigma))
                 [0..<length v],
               content\<lparr>work := (err_weights env)
                                [subvec content := map (\<lambda>k. y ! k + sigma * v ! k) [0..<length v]],
                        nfeDQ := nfeDQ content + 1,
                        udata := ud\<lparr>RxNetData := snd (snd res)\<rparr>\<rparr>))"
proof -
  define sigma where "sigma = 1 / N_VWrmsNorm v (err_weights env ! subvec content)"
  define y where "y = ycur env ! subvec content"
  define ud where "ud = udata content"
  define w1 where "w1 = map (\<lambda>k. y ! k + sigma * v ! k) [0..<length v]"
  define res where "res = calculate_rhs_cvklu (tcur env) w1 z (nxl ud * nyl ud * nzl ud) (RxNetData ud)"
  define f where "f = fst (snd res)"
  have w1: "N_VLinearSum sigma v 1 y = w1"
    using len(1) by (simp add: N_VLinearSum_nth y_def w1_def add.commute)
  have res: "res = (0, f, snd (snd res))"
    by (simp add: prod_eq_iff f_def res_def)
  have lf: "length f = length v"
    using len(2) by (simp add: f_def res_def length_calculate_rhs_cvklu)
  have z2: "N_VScale (TimeUnits ud) f = map (\<lambda>k. TimeUnits ud * f ! k) [0..<length v]"
    using lf by (intro nth_equalityI) (simp_all add: N_VScale_def)
  have z3: "N_VLinearSum (1 / sigma) (N_VScale (TimeUnits ud) f) (- (1 / sigma)) fc =
        map (\<lambda>k. (TimeUnits ud * f ! k - fc ! k) / sigma) [0..<length v]"
    using len(3) lf
    by (intro nth_equalityI) (simp_all add: N_VLinearSum_def N_VScale_def diff_divide_distrib)
  have z4: "N_VLinearSum 1 v (- gamma_cur env)
          (map (\<lambda>k. (TimeUnits ud * f ! k - fc ! k) / sigma) [0..<length v]) =
        map (\<lambda>k. v ! k - gamma_cur env * ((TimeUnits ud * f ! k - fc ! k) / sigma)) [0..<length v]"
    by (intro nth_equalityI) (simp_all add: N_VLinearSum_def)
  have "ATimes_BDMPIMV env content v z =
      Some (0, map (\<lambda>k. v ! k - gamma_cur env * ((TimeUnits ud * f ! k - fc ! k) / sigma)) [0..<length v],
            content\<lparr>work := (err_weights env)[subvec content := w1],
                     nfeDQ := nfeDQ content + 1,
                     udata := ud\<lparr>RxNetData := snd (snd res)\<rparr>\<rparr>)"
    unfolding ATimes_BDMPIMV_def Let_def
    using getters timers flag sub fc
    apply (simp add: N_VGetSubvector_MPIManyVector_def sigma_def [symmetric] y_def [symmetric]
        ud_def [symmetric] w1 res_def [symmetric])
    apply (subst res)
    apply (simp add: sigma_def [symmetric] y_def [symmetric] ud_def [symmetric] w1 z3 z4)
    done
  then show ?thesis
    unfolding Let_def sigma_def [symmetric] y_def [symmetric] ud_def [symmetric]
      w1_def [symmetric] res_def [symmetric] f_def [symmetric] .
qed

text \<open>
  Claim C5. Let \<open>fimpl\<close> have returned 0 with a cache vector allocated, and let
  \<open>ATimes_BDMPIMV\<close> run on the user data it left, with all its library calls succeeding
  and a vector \<open>v\<close> of nonzero weighted norm. Then the cache \<open>fchemcur\<close> is the chemistry
  right-hand side of that \<open>fimpl\<close> call times \<open>TimeUnits\<close>, and the product is
  \<open>z = v - gamma * Jv\<close> with \<open>Jv = (TimeUnits * f(y + sigma v) - fchemcur) / sigma\<close> and
  \<open>sigma = 1 / ||v||\<close> in the weighted root-mean-square norm. The chemistry routine is
  evaluated once, at \<open>y + sigma v\<close>, and the evaluation counter goes up by one.
\<close>

theorem ATimes_matrix_free_product:
  assumes implicit: "fst (fimpl fenv t w wdot ud) = 0"
    and cache: "fchemcur ud \<noteq> None"
    and fflag: "\<not> check_flag_retval fenv 0"
    and content: "udata content = snd (snd (fimpl fenv t w wdot ud))"
    and calls: "atimes_calls_succeed env"
    and sub: "subvec content < length (ycur env)" "subvec content < length (err_weights env)"
    and len: "length (ycur env ! subvec content) = length v" "length z = length v"
      "length (wdot ! 5) = length v"
    and norm: "N_VWrmsNorm v (err_weights env ! subvec content) \<noteq> 0"
  shows "(let fchemcur_now =
                map (\<lambda>x. TimeUnits ud * x)
                  (fst (snd (calculate_rhs_cvklu t (w ! 5) (replicate (length (wdot ! 5)) 0)
                     (nxl ud * nyl ud * nzl ud) (RxNetData ud))));
              sigma = 1 / N_VWrmsNorm v (err_weights env ! subvec content);
              y = ycur env ! subvec content;
              ud1 = udata content;
              res = calculate_rhs_cvklu (tcur env)
                      (map (\<lambda>k. y ! k + sigma * v ! k) [0..<length v]) z
                      (nxl ud1 * nyl ud1 * nzl ud1) (RxNetData ud1);
              f = fst (snd res);
              Jv = map (\<lambda>k. (TimeUnits ud1 * f ! k - fchemcur_now ! k) / sigma) [0..<length v]
          in fchemcur (udata content) = Some fchemcur_now
             \<and> ATimes_BDMPIMV env content v z =
                 Some (0, map (\<lambda>k. v ! k - gamma_cur env * Jv ! k) [0..<length v],
                       content\<lparr>work := (err_weights env)
                                   [subvec content := map (\<lambda>k. y ! k + sigma * v ! k) [0..<length v]],
                                nfeDQ := nfeDQ content + 1,
                                udata := ud1\<lparr>RxNetData := snd (snd res)\<rparr>\<rparr>))"
proof -
  obtain fc0 where fc0: "fchemcur ud = Some fc0"
    using cache by auto
  define fnow where "fnow = map (\<lambda>x. TimeUnits ud * x)
      (fst (snd (calculate_rhs_cvklu t (w ! 5) (replicate (length (wdot ! 5)) 0)
         (nxl ud * nyl ud * nzl ud) (RxNetData ud))))"
  have cached: "fchemcur (udata content) = Some fnow"
    using fimpl_caches_rhs [OF implicit fc0 fflag] by (simp add: content fnow_def)
  have lnow: "length fnow = length v"
    using len(3) by (simp add: fnow_def length_calculate_rhs_cvklu)
  have calls': "\<not> get_time_failed env" "\<not> get_state_failed env" "\<not> get_gamma_failed env"
      "\<not> get_weights_failed env" "\<not> latimes_start_failed env" "\<not> latimes_stop_failed env"
      "\<not> atimes_check_flag_retval env 0"
    using calls by (simp_all add: atimes_calls_succeed_def)
  have Jv: "map (\<lambda>k. v ! k - gamma_cur env * (map (\<lambda>k. (c * g ! k - fnow ! k) / s) [0..<length v]) ! k)
        [0..<length v] = map (\<lambda>k. v ! k - gamma_cur env * ((c * g ! k - fnow ! k) / s)) [0..<length v]"
    for c s and g :: "real list"
    by (intro nth_equalityI) simp_all
  show ?thesis
    unfolding Let_def fnow_def [symmetric] Jv
    using cached
      ATimes_formula [OF calls'(1-4) calls'(5,6) calls'(7) sub cached len(1,2) lnow]
    by (simp add: Let_def)
qed

theorem ATimes_matrix_free_product_witness:
  "fst (fimpl sample_fimpl_env 0 sample_w sample_w sample_udata) = 0
   \<and> fchemcur sample_udata \<noteq> None
   \<and> \<not> check_flag_retval sample_fimpl_env 0
   \<and> atimes_calls_succeed sample_atimes_env
   \<and> N_VWrmsNorm sample_v (err_weights sample_atimes_env ! subvec sample_content) = 1
   \<and> (let fchemcur_now =
                map (\<lambda>x. TimeUnits sample_udata * x)
                  (fst (snd (calculate_rhs_cvklu 0 (sample_w ! 5) (replicate (length (sample_w ! 5)) 0)
                     (nxl sample_udata * nyl sample_udata * nzl sample_udata) (RxNetData sample_udata))));
              sigma = 1 / N_VWrmsNorm sample_v (err_weights sample_atimes_env ! subvec sample_content);
              y = ycur sample_atimes_env ! subvec sample_content;
              ud1 = udata sample_content;
              res = calculate_rhs_cvklu (tcur sample_atimes_env)
                      (map (\<lambda>k. y ! k + sigma * sample_v ! k) [0..<length sample_v]) sample_z
                      (nxl ud1 * nyl ud1 * nzl ud1) (RxNetData ud1);
              f = fst (snd res);
              Jv = map (\<lambda>k. (TimeUnits ud1 * f ! k - fchemcur_now ! k) / sigma) [0..<length sample_v]
          in fchemcur (udata sample_content) = Some fchemcur_now
             \<and> ATimes_BDMPIMV sample_atimes_env sample_content sample_v sample_z =
                 Some (0, map (\<lambda>k. sample_v ! k - gamma_cur sample_atimes_env * Jv ! k) [0..<length sample_v],
                       sample_content\<lparr>work := (err_weights sample_atimes_env)
                                   [subvec sample_content := map (\<lambda>k. y ! k + sigma * sample_v ! k) [0..<length sample_v]],
                                nfeDQ := nfeDQ sample_content + 1,
                                udata := ud1\<lparr>RxNetData := snd (snd res)\<rparr>\<rparr>))"
proof -
  have implicit: "fst (fimpl sample_fimpl_env 0 sample_w sample_w sample_udata) = 0"
    by (simp add: fimpl_def sample_fimpl_env_def sample_w_def Let_def case_prod_beta
        N_VGetSubvector_MPIManyVector_def N_VConst_ManyVector_def)
  have cache: "fchemcur sample_udata \<noteq> None"
    by (simp add: sample_udata_def)
  have fflag: "\<not> check_flag_retval sample_fimpl_env 0"
    by (simp add: sample_fimpl_env_def)
  have content: "udata sample_content = snd (snd (fimpl sample_fimpl_env 0 sample_w sample_w sample_udata))"
    by (simp add: sample_content_def)
  have calls: "atimes_calls_succeed sample_atimes_env"
    by (simp add: atimes_calls_succeed_def sample_atimes_env_def)
  have sub: "subvec sample_content < length (ycur sample_atimes_env)"
      "subvec sample_content < length (err_weights sample_atimes_env)"
    by (simp_all add: sample_content_def sample_atimes_env_def sample_w_def)
  have len: "length (ycur sample_atimes_env ! subvec sample_content) = length sample_v"
      "length sample_z = length sample_v"
      "length (sample_w ! 5) = length sample_v"
    by (simp_all add: sample_content_def sample_atimes_env_def sample_w_def sample_v_def sample_z_def)
  have norm1: "N_VWrmsNorm sample_v (err_weights sample_atimes_env ! subvec sample_content) = 1"
    by (simp add: N_VWrmsNorm_def sample_content_def sample_atimes_env_def sample_w_def
        sample_v_def sum_list_replicate)
  then have norm: "N_VWrmsNorm sample_v (err_weights sample_atimes_env ! subvec sample_content) \<noteq> 0"
    by simp
  show ?thesis
    by (intro conjI implicit cache fflag calls norm1
        ATimes_matrix_free_product [OF implicit cache fflag content calls sub len norm])
qed

section \<open>Unit scaling\<close>

lemma stored_scaling:
  "scale (RxNetData (store_Dengo_scaling s ud)) = s"
  "inv_scale (RxNetData (store_Dengo_scaling s ud)) = map (\<lambda>x. 1 / x) s"
  by (simp_all add: store_Dengo_scaling_def)



text \<open>
  A factor of zero has no inverse: the round trip then loses the entries of the
  sub-block.
\<close>

lemma zero_factor_breaks_round_trip:
  "snd (unapply_Dengo_scaling
         (snd (apply_Dengo_scaling sample_w (store_Dengo_scaling (replicate 10 0) sample_udata)))
         (store_Dengo_scaling (replicate 10 0) sample_udata)) \<noteq> sample_w"
  by (simp add: apply_Dengo_scaling_def unapply_Dengo_scaling_def stored_scaling sample_w_def)



section \<open>The parameter checks of main\<close>

text \<open>
  Claim C7. With \<open>dTout\<close> the output interval that \<open>main\<close> computes, a configuration with
  \<open>htrans >= dTout\<close> never reaches \<open>ARKStepCreate\<close>: the process aborts, and unless a
  library call or the step size test stopped it before, it aborts at the \<open>htrans\<close> test,
  the process with \<open>myid = 0\<close> writing the message. A configuration with
  \<open>htrans < dTout\<close> is never stopped by this test.
\<close>

theorem htrans_check_is_fatal:
  "(main_dTout ud \<le> htrans opts \<longrightarrow>
      (\<exists>why. main_until_ARKStepCreate env ud opts = Inl why)
      \<and> (\<not> startup_call_failed env \<and> \<not> (fixedstep opts \<noteq> 0 \<and> hmax opts \<le> 0) \<longrightarrow>
           main_until_ARKStepCreate env ud opts =
             Inl (Htrans_not_below_dTout (htrans opts) (main_dTout ud), myid ud = 0)))
   \<and> (htrans opts < main_dTout ud \<longrightarrow>
        (\<forall>a b p. main_until_ARKStepCreate env ud opts \<noteq> Inl (Htrans_not_below_dTout a b, p)))"
  by (auto simp: main_until_ARKStepCreate_def main_dTout_def set_NoOutput_def Let_def
      split: if_splits prod.splits)

theorem htrans_check_is_fatal_witness:
  "main_dTout sample_udata \<le> htrans (sample_options (1 / 2))
   \<and> main_until_ARKStepCreate sample_main_env sample_udata (sample_options (1 / 2)) =
       Inl (Htrans_not_below_dTout (1 / 2) (1 / 10), True)
   \<and> htrans (sample_options (1 / 20)) < main_dTout sample_udata
   \<and> (\<forall>a b p. main_until_ARKStepCreate sample_main_env sample_udata (sample_options (1 / 20))
          \<noteq> Inl (Htrans_not_below_dTout a b, p))"
proof -
  have d: "main_dTout sample_udata = 1 / 10"
    by (simp add: main_dTout_def set_NoOutput_def sample_udata_def)
  have large: "main_dTout sample_udata \<le> htrans (sample_options (1 / 2))"
    and small: "htrans (sample_options (1 / 20)) < main_dTout sample_udata"
    by (simp_all add: d sample_options_def)
  have quiet: "\<not> startup_call_failed sample_main_env
      \<and> \<not> (fixedstep (sample_options (1 / 2)) \<noteq> 0 \<and> hmax (sample_options (1 / 2)) \<le> 0)"
    by (simp add: sample_main_env_def sample_options_def)
  have id0: "myid sample_udata = 0" and h: "htrans (sample_options (1 / 2)) = 1 / 2"
    by (simp_all add: sample_udata_def sample_options_def)
  from htrans_check_is_fatal [of sample_udata "sample_options (1 / 2)" sample_main_env]
  have "main_until_ARKStepCreate sample_main_env sample_udata (sample_options (1 / 2)) =
       Inl (Htrans_not_below_dTout (htrans (sample_options (1 / 2))) (main_dTout sample_udata),
            myid sample_udata = 0)"
    using large quiet by blast
  then have abort: "main_until_ARKStepCreate sample_main_env sample_udata (sample_options (1 / 2)) =
       Inl (Htrans_not_below_dTout (1 / 2) (1 / 10), True)"
    by (simp add: d id0 h)
  from htrans_check_is_fatal [of sample_udata "sample_options (1 / 20)" sample_main_env]
  have pass: "\<forall>a b p. main_until_ARKStepCreate sample_main_env sample_udata (sample_options (1 / 20))
          \<noteq> Inl (Htrans_not_below_dTout a b, p)"
    using small by blast
  show ?thesis
    using large abort small pass by blast
qed

section \<open>The explicit right-hand side on the smoke test state\<close>

















end
